theory Spec2Isabelle
  imports Complex_Main
begin

section \<open>Numbers of the program\<close>

text \<open>
  The oracle is C++. Its \<open>double\<close> values are modelled by their value: a real number, one
  of the two infinities, or NaN. The comparisons below are the IEEE ones (every comparison
  with NaN is false); they are exact. The arithmetic is the exact one on the reals: the
  rounding of a sum or a quotient is not modelled, and the sign of a zero is not kept (the
  only divisors of the program are a \<open>size_t\<close> and an \<open>int\<close> converted, which are never
  \<open>-0.0\<close>). No statement below depends on a rounded value.
\<close>

datatype double = Finite real | PosInf | NegInf | NaN

fun dless :: "double \<Rightarrow> double \<Rightarrow> bool" where
  "dless NaN y = False"
| "dless x NaN = False"
| "dless (Finite a) (Finite b) = (a < b)"
| "dless (Finite a) PosInf = True"
| "dless (Finite a) NegInf = False"
| "dless NegInf NegInf = False"
| "dless NegInf y = True"
| "dless PosInf y = False"

definition deq :: "double \<Rightarrow> double \<Rightarrow> bool" where
  "deq x y = (x \<noteq> NaN \<and> y \<noteq> NaN \<and> x = y)"

definition dle :: "double \<Rightarrow> double \<Rightarrow> bool" where
  "dle x y = (dless x y \<or> deq x y)"

fun dadd :: "double \<Rightarrow> double \<Rightarrow> double" where
  "dadd NaN y = NaN"
| "dadd x NaN = NaN"
| "dadd (Finite a) (Finite b) = Finite (a + b)"
| "dadd PosInf NegInf = NaN"
| "dadd NegInf PosInf = NaN"
| "dadd PosInf y = PosInf"
| "dadd x PosInf = PosInf"
| "dadd NegInf y = NegInf"
| "dadd x NegInf = NegInf"

fun ddiv :: "double \<Rightarrow> double \<Rightarrow> double" where
  "ddiv NaN y = NaN"
| "ddiv x NaN = NaN"
| "ddiv (Finite a) (Finite b) =
     (if b = 0 then (if a = 0 then NaN else if 0 < a then PosInf else NegInf)
      else Finite (a / b))"
| "ddiv (Finite a) y = Finite 0"
| "ddiv PosInf (Finite b) = (if 0 \<le> b then PosInf else NegInf)"
| "ddiv NegInf (Finite b) = (if 0 \<le> b then NegInf else PosInf)"
| "ddiv x y = NaN"

text \<open>\<open>std::max(a, b)\<close> is \<open>(a < b) ? b : a\<close>.\<close>

definition dmax :: "double \<Rightarrow> double \<Rightarrow> double" where
  "dmax a b = (if dless a b then b else a)"

text \<open>
  The counters are C++ \<open>int\<close>. Signed overflow is undefined in C++; the model writes out
  the two's-complement wrap-around of a 32-bit \<open>int\<close>, and the statements about runs show
  that the counters stay in the range where no wrap-around happens.
\<close>

definition INT_MAX :: int where
  "INT_MAX = 2147483647"

definition wrap_int :: "int \<Rightarrow> int" where
  "wrap_int x = (x + 2147483648) mod 4294967296 - 2147483648"

text \<open>
  What stops the program: \<open>exit(EXIT_FAILURE)\<close>, a \<open>std::out_of_range\<close> exception thrown
  by \<open>std::string::substr\<close>, and a read past the end of a \<open>std::vector\<close> (undefined
  behaviour in C++, which the model reports instead of returning some value).
\<close>

datatype error = EXIT_FAILURE | std_out_of_range | undefined_behaviour

section \<open>Statistics.cc\<close>

text \<open>
  \<open>failedPoint\<close> is declared in Statistics.hh, which is not among the sources; its
  members are read off the initialiser in \<open>recordFailure\<close> (an array of three coordinates,
  then five \<open>double\<close>) and the column names given in \<open>writeOutForVisu\<close>. \<open>report\<close>
  names the member \<open>dist\<close>.
\<close>

record failedPoint =
  fp_xyz :: "double \<times> double \<times> double"
  fp_pointID :: double
  fp_cellID :: double
  fp_materialID :: double
  fp_dist :: double
  fp_rank :: double

record Statistics =
  nbSuccess :: int
  nbFailure :: int
  nbIgnored :: int
  nbOutside :: int
  nbT4Volumes :: int
  coveredRanks :: "int set"
  failures :: "failedPoint list"

text \<open>The constructor \<open>Statistics::Statistics()\<close>.\<close>

definition Statistics_new :: Statistics where
  "Statistics_new =
     \<lparr>nbSuccess = 0, nbFailure = 0, nbIgnored = 0, nbOutside = 0, nbT4Volumes = 0,
      coveredRanks = {}, failures = []\<rparr>"

definition incrementSuccess :: "Statistics \<Rightarrow> Statistics" where
  "incrementSuccess st = st\<lparr>nbSuccess := wrap_int (nbSuccess st + 1)\<rparr>"

definition incrementFailure :: "Statistics \<Rightarrow> Statistics" where
  "incrementFailure st = st\<lparr>nbFailure := wrap_int (nbFailure st + 1)\<rparr>"

definition incrementIgnore :: "Statistics \<Rightarrow> Statistics" where
  "incrementIgnore st = st\<lparr>nbIgnored := wrap_int (nbIgnored st + 1)\<rparr>"

definition incrementOutside :: "Statistics \<Rightarrow> Statistics" where
  "incrementOutside st = st\<lparr>nbOutside := wrap_int (nbOutside st + 1)\<rparr>"

definition getTotalPts :: "Statistics \<Rightarrow> int" where
  "getTotalPts st =
     wrap_int (wrap_int (wrap_int (nbSuccess st + nbFailure st) + nbIgnored st) + nbOutside st)"

text \<open>The four counters, in the order of \<open>getTotalPts\<close>.\<close>

definition counters :: "Statistics \<Rightarrow> int list" where
  "counters st = [nbSuccess st, nbFailure st, nbIgnored st, nbOutside st]"

definition recordCoveredRank :: "int \<Rightarrow> Statistics \<Rightarrow> Statistics" where
  "recordCoveredRank rank st = st\<lparr>coveredRanks := insert rank (coveredRanks st)\<rparr>"

definition setNbT4Volumes :: "int \<Rightarrow> Statistics \<Rightarrow> Statistics" where
  "setNbT4Volumes nbVolumes st = st\<lparr>nbT4Volumes := nbVolumes\<rparr>"

text \<open>
  \<open>recordFailure(position, rank, pointID, cellID, materialID, dist)\<close> reads
  \<open>position[0]\<close>, \<open>position[1]\<close> and \<open>position[2]\<close> and appends one \<open>failedPoint\<close>. It
  touches no counter. The conversions \<open>double(pointID)\<close> and so on are exact for an
  \<open>int\<close>; for the \<open>long rank\<close> they are exact below \<open>2^53\<close> (the model keeps the value).
\<close>

definition recordFailure ::
  "double list \<Rightarrow> int \<Rightarrow> int \<Rightarrow> int \<Rightarrow> int \<Rightarrow> double \<Rightarrow> Statistics \<Rightarrow> error + Statistics" where
  "recordFailure position rank pointID cellID materialID dist' st =
     (if length position < 3 then Inl undefined_behaviour
      else Inr (st\<lparr>failures := failures st @
        [\<lparr>fp_xyz = (position ! 0, position ! 1, position ! 2),
          fp_pointID = Finite (of_int pointID),
          fp_cellID = Finite (of_int cellID),
          fp_materialID = Finite (of_int materialID),
          fp_dist = dist',
          fp_rank = Finite (of_int rank)\<rparr>]\<rparr>))"

definition getFailures :: "Statistics \<Rightarrow> failedPoint list" where
  "getFailures st = failures st"

text \<open>
  \<open>report\<close> prints; the model returns the numbers it prints. The loop over \<open>failures\<close>
  carries \<open>maxDist\<close> and \<open>averageDist\<close>, both starting at \<open>0.\<close>; after it
  \<open>averageDist /= failures.size()\<close>, whatever the size.
\<close>

fun report_loop :: "failedPoint list \<Rightarrow> double \<times> double \<Rightarrow> double \<times> double" where
  "report_loop [] (maxDist, averageDist) = (maxDist, averageDist)"
| "report_loop (p # ps) (maxDist, averageDist) =
     report_loop ps (dmax maxDist (fp_dist p), dadd averageDist (fp_dist p))"

text \<open>
  \<open>reportOn(status, data, total)\<close> prints \<open>data\<close> and
  \<open>100. * float(data) / float(total)\<close>.
\<close>

definition reportOn :: "int \<Rightarrow> int \<Rightarrow> int \<times> double" where
  "reportOn data total' = (data, ddiv (Finite (100 * of_int data)) (Finite (of_int total')))"

record Report =
  rp_totalPt :: int
  rp_successful :: "int \<times> double"
  rp_failed :: "int \<times> double"
  rp_ignored :: "int \<times> double"
  rp_outside :: "int \<times> double"
  rp_covered :: nat
  rp_input :: int
  rp_averageDist :: double
  rp_maxDist :: double

definition report :: "Statistics \<Rightarrow> Report" where
  "report st =
     (let (maxDist, sumDist) = report_loop (failures st) (Finite 0, Finite 0);
          averageDist = ddiv sumDist (Finite (of_nat (length (failures st))));
          totalPt = getTotalPts st
      in \<lparr>rp_totalPt = totalPt,
          rp_successful = reportOn (nbSuccess st) totalPt,
          rp_failed = reportOn (nbFailure st) totalPt,
          rp_ignored = reportOn (nbIgnored st) totalPt,
          rp_outside = reportOn (nbOutside st) totalPt,
          rp_covered = card (coveredRanks st),
          rp_input = nbT4Volumes st,
          rp_averageDist = averageDist,
          rp_maxDist = maxDist\<rparr>)"

text \<open>
  \<open>std::string::find_last_of\<close> for one character (\<open>None\<close> is \<open>npos\<close>) and
  \<open>std::string::substr(pos, n)\<close> (\<open>None\<close> for \<open>n = npos\<close>), which throws when \<open>pos\<close>
  is past the end.
\<close>

fun find_last_of :: "char \<Rightarrow> string \<Rightarrow> nat option" where
  "find_last_of c [] = None"
| "find_last_of c (x # xs) =
     (case find_last_of c xs of
        Some i \<Rightarrow> Some (Suc i)
      | None \<Rightarrow> (if x = c then Some 0 else None))"

definition substr :: "string \<Rightarrow> nat \<Rightarrow> nat option \<Rightarrow> error + string" where
  "substr s pos n =
     (if length s < pos then Inl std_out_of_range
      else Inr (case n of None \<Rightarrow> drop pos s | Some k \<Rightarrow> take k (drop pos s)))"

definition getRawFileName :: "string \<Rightarrow> error + string" where
  "getRawFileName fname =
     (case substr fname 0 (find_last_of CHR ''.'' fname) of
        Inl e \<Rightarrow> Inl e
      | Inr rawname \<Rightarrow>
          (case find_last_of CHR ''/'' fname of
             None \<Rightarrow> Inr rawname
           | Some lastindex \<Rightarrow> substr rawname (lastindex + 1) None))"

text \<open>\<open>writePointsFile\<close>: the name of the file it writes and the text it writes there.\<close>

definition writePointsFile :: "string \<Rightarrow> string \<times> string" where
  "writePointsFile rawname =
     (rawname @ ''.points'', ''name '' @ rawname @ ''.failedpoints.general'' @ [CHR 0x0A])"

text \<open>
  The loop of \<open>writeOutForVisu\<close>, \<open>for (int iFail = 0; iFail < nbFailure; iFail++)\<close>,
  hands \<open>failures[iFail]\<close> to the event store: one row of the table per call. Its bound is
  the counter \<open>nbFailure\<close>, not the size of \<open>failures\<close>.
\<close>

function store_loop ::
  "failedPoint list \<Rightarrow> int \<Rightarrow> int \<Rightarrow> failedPoint list \<Rightarrow> error + failedPoint list" where
  "store_loop fs n iFail rows =
     (if iFail < n then
        (if 0 \<le> iFail \<and> nat iFail < length fs
         then store_loop fs n (iFail + 1) (rows @ [fs ! nat iFail])
         else Inl undefined_behaviour)
      else Inr rows)"
  by pat_completeness auto
termination
  by (relation "measure (\<lambda>(fs, n, iFail, rows). nat (n - iFail))") auto

record Export =
  ex_datFile :: string
  ex_columns :: "string list"
  ex_rows :: "failedPoint list"
  ex_pointsFile :: "string \<times> string"

definition writeOutForVisu :: "Statistics \<Rightarrow> string \<Rightarrow> error + Export" where
  "writeOutForVisu st fname =
     (case getRawFileName fname of
        Inl e \<Rightarrow> Inl e
      | Inr rawname \<Rightarrow>
          (case store_loop (failures st) (nbFailure st) 0 [] of
             Inl e \<Rightarrow> Inl e
           | Inr rows \<Rightarrow>
               Inr \<lparr>ex_datFile = rawname @ ''.failedpoints.dat'',
                    ex_columns = [''x'', ''y'', ''z'', ''pointID'', ''cellID'', ''materialID'',
                                  ''dist'', ''rank''],
                    ex_rows = rows,
                    ex_pointsFile = writePointsFile rawname\<rparr>))"

section \<open>oracle.cc\<close>

text \<open>
  \<open>compare_geoms\<close> works on two objects whose classes are not among the sources:
  \<open>T4Geometry\<close> (the converted geometry, with the material equivalences found so far) and
  \<open>MCNPGeometry\<close> (the reader of the sampled points). The methods of \<open>T4Geometry\<close> that
  \<open>compare_geoms\<close> calls are parameters of the model: a record of functions over any type
  \<open>'g\<close> of geometry objects and any type \<open>'k\<close> of the pairs that
  \<open>getMaterialDensity\<close> returns. What is proved of \<open>compare_geoms\<close> for every such
  record holds whatever these methods do.
\<close>

record ('g, 'k) T4Geometry_methods =
  T4Geometry_ctor :: "string \<Rightarrow> double \<Rightarrow> 'g"
  which_volume :: "'g \<Rightarrow> double list \<Rightarrow> int"
  get_name_from_volume :: "'g \<Rightarrow> int \<Rightarrow> string"
  materialInMap :: "'g \<Rightarrow> 'k \<Rightarrow> bool"
  addEquivalence :: "'g \<Rightarrow> 'k \<Rightarrow> string \<Rightarrow> 'g"
  weakEquivalence :: "'g \<Rightarrow> 'k \<Rightarrow> string \<Rightarrow> bool"
  isPointNearSurface :: "'g \<Rightarrow> double list \<Rightarrow> int \<Rightarrow> bool"

text \<open>
  One record of the PTRAC file, as \<open>compare_geoms\<close> reads it after
  \<open>readNextPtracData\<close>: \<open>getPointXyz()\<close> and \<open>getMaterialDensity()\<close>.
\<close>

record 'k ptrac_point =
  getPointXyz :: "double list"
  getMaterialDensity :: 'k

text \<open>
  Modelled from the spec: \<open>MCNPGeometry\<close> (MCNPGeometry.cc is not among the sources).
  The spec's sample source "supplies, per call, a 3D point, a source material identifier,
  a source density value" and "reports when exhausted or when the configured sample budget
  is reached": the reader holds the records of the file, and the loop
  \<open>while (mcnpGeom.readNextPtracData(nbSampledPts))\<close> sees the first \<open>nbSampledPts\<close>
  of them, or all of them when they are fewer.
\<close>

record 'k MCNPGeometry =
  getNPS :: int
  ptrac :: "'k ptrac_point list"

definition readPtracData :: "'k MCNPGeometry \<Rightarrow> int \<Rightarrow> 'k ptrac_point list" where
  "readPtracData mcnpGeom nbSampledPts = take (nat nbSampledPts) (ptrac mcnpGeom)"

text \<open>
  The body of the loop of \<open>compare_geoms\<close>, on the pair of the two objects it changes:
  \<open>t4Geom\<close> and \<open>stats\<close>. \<open>exit(EXIT_FAILURE)\<close> is the left result, with the two
  objects as they are when the process exits. oracle.cc writes \<open>IncrementSuccess\<close>,
  \<open>IncrementIgnore\<close> and \<open>IncrementFailure\<close> for the methods that Statistics.cc defines
  as \<open>incrementSuccess\<close>, \<open>incrementIgnore\<close> and \<open>incrementFailure\<close>.
\<close>

definition compare_geoms_body ::
  "('g, 'k) T4Geometry_methods \<Rightarrow> 'g \<times> Statistics \<Rightarrow> 'k ptrac_point \<Rightarrow>
     (error \<times> 'g \<times> Statistics) + ('g \<times> Statistics)" where
  "compare_geoms_body T gs p =
     (let t4Geom = fst gs; stats = snd gs;
          point = getPointXyz p;
          rank = which_volume T t4Geom point;
          compo = get_name_from_volume T t4Geom rank
      in if rank < 0 then Inl (EXIT_FAILURE, t4Geom, stats)
         else if \<not> materialInMap T t4Geom (getMaterialDensity p) then
           Inr (addEquivalence T t4Geom (getMaterialDensity p) compo, incrementSuccess stats)
         else if weakEquivalence T t4Geom (getMaterialDensity p) compo then
           Inr (t4Geom, incrementSuccess stats)
         else if isPointNearSurface T t4Geom point rank then
           Inr (t4Geom, incrementIgnore stats)
         else Inr (t4Geom, incrementFailure stats))"

fun compare_geoms_loop ::
  "('g, 'k) T4Geometry_methods \<Rightarrow> 'g \<times> Statistics \<Rightarrow> 'k ptrac_point list \<Rightarrow>
     (error \<times> 'g \<times> Statistics) + ('g \<times> Statistics)" where
  "compare_geoms_loop T gs [] = Inr gs"
| "compare_geoms_loop T gs (p # ps) =
     (case compare_geoms_body T gs p of
        Inl e \<Rightarrow> Inl e
      | Inr gs' \<Rightarrow> compare_geoms_loop T gs' ps)"

text \<open>
  \<open>compare_geoms(options)\<close> reads \<open>options.filenames[0..2]\<close> and \<open>options.npoints\<close>
  (as a number). \<open>M\<close> stands for the constructor of \<open>MCNPGeometry\<close> followed by
  \<open>parseINP\<close> and \<open>goThroughHeaderPTRAC\<close>: what the two files hold.
  \<open>int nbSampledPts = min(options.npoints, mcnpGeom.getNPS())\<close> narrows to \<open>int\<close>.
  With fewer than three file names the reads of \<open>filenames\<close> are past the end.
\<close>

definition compare_geoms ::
  "('g, 'k) T4Geometry_methods \<Rightarrow> (string \<Rightarrow> string \<Rightarrow> 'k MCNPGeometry) \<Rightarrow>
     string list \<Rightarrow> int \<Rightarrow> (error \<times> ('g \<times> Statistics) option) + Statistics" where
  "compare_geoms T M fnames npts =
     (if length fnames < 3 then Inl (undefined_behaviour, None)
      else
        let t4Geom = T4Geometry_ctor T (fnames ! 0) (Finite 0);
            mcnpGeom = M (fnames ! 2) (fnames ! 1);
            stats = Statistics_new;
            nbSampledPts = wrap_int (min npts (getNPS mcnpGeom))
        in case compare_geoms_loop T (t4Geom, stats) (readPtracData mcnpGeom nbSampledPts) of
             Inl (e, gs) \<Rightarrow> Inl (e, Some gs)
           | Inr gs \<Rightarrow> Inr (snd gs))"

text \<open>
  The state of a run after its first \<open>n\<close> points, also when the run has stopped before.
\<close>

definition run_state ::
  "(error \<times> 'g \<times> Statistics) + ('g \<times> Statistics) \<Rightarrow> 'g \<times> Statistics" where
  "run_state r = (case r of Inl (e, gs) \<Rightarrow> gs | Inr gs \<Rightarrow> gs)"

definition stats_after ::
  "('g, 'k) T4Geometry_methods \<Rightarrow> 'g \<times> Statistics \<Rightarrow> 'k ptrac_point list \<Rightarrow> nat \<Rightarrow> Statistics" where
  "stats_after T gs ps n = snd (run_state (compare_geoms_loop T gs (take n ps)))"

definition t4Geom_after ::
  "('g, 'k) T4Geometry_methods \<Rightarrow> 'g \<times> Statistics \<Rightarrow> 'k ptrac_point list \<Rightarrow> nat \<Rightarrow> 'g" where
  "t4Geom_after T gs ps n = fst (run_state (compare_geoms_loop T gs (take n ps)))"

subsection \<open>The equivalence map of T4Geometry\<close>

text \<open>
  Modelled from the spec: the class \<open>T4Geometry\<close> (T4Geometry.cc and T4Geometry.hh are
  not among the sources). The spec's EquivalenceMap is "a mapping from MaterialKey to a
  single target composition identifier", "empty at engine construction". The geometry
  itself (which volume holds a point, the composition of a volume, the distance from a
  point to the nearest surface of its volume) is what the input file holds, and the
  tolerance is the number the object is built with.
\<close>

record 'k T4Geometry =
  equivalenceMap :: "'k \<rightharpoonup> string"
  toleranceDelta :: double
  volumes :: "double list \<Rightarrow> int"
  compos :: "int \<Rightarrow> string"
  surfaceDistance :: "double list \<Rightarrow> int \<Rightarrow> double"

text \<open>
  Modelled from the spec: \<open>materialInMap\<close>, "\<open>key\<close> is not yet present in the
  EquivalenceMap" when it is false.
\<close>

definition spec_materialInMap :: "'k T4Geometry \<Rightarrow> 'k \<Rightarrow> bool" where
  "spec_materialInMap g key = (key \<in> dom (equivalenceMap g))"

text \<open>Modelled from the spec: \<open>addEquivalence\<close>, "insert \<open>key -> targetComposition\<close>".\<close>

definition spec_addEquivalence :: "'k T4Geometry \<Rightarrow> 'k \<Rightarrow> string \<Rightarrow> 'k T4Geometry" where
  "spec_addEquivalence g key compo = g\<lparr>equivalenceMap := (equivalenceMap g)(key \<mapsto> compo)\<rparr>"

text \<open>
  Modelled from the spec: \<open>weakEquivalence\<close>, "let \<open>expected = EquivalenceMap[key]\<close>.
  If \<open>expected == targetComposition\<close>".
\<close>

definition spec_weakEquivalence :: "'k T4Geometry \<Rightarrow> 'k \<Rightarrow> string \<Rightarrow> bool" where
  "spec_weakEquivalence g key compo = (equivalenceMap g key = Some compo)"

text \<open>
  Modelled from the spec: \<open>isPointNearSurface\<close>, "\<open>surfaceDistance <= toleranceDelta\<close>".
\<close>

definition spec_isPointNearSurface :: "'k T4Geometry \<Rightarrow> double list \<Rightarrow> int \<Rightarrow> bool" where
  "spec_isPointNearSurface g point rank = dle (surfaceDistance g point rank) (toleranceDelta g)"

text \<open>
  Modelled from the spec: the methods of \<open>T4Geometry\<close> together; \<open>readT4input\<close> stands
  for the content of the input file the constructor reads.
\<close>

definition spec_T4Geometry ::
  "(string \<Rightarrow> (double list \<Rightarrow> int) \<times> (int \<Rightarrow> string) \<times> (double list \<Rightarrow> int \<Rightarrow> double)) \<Rightarrow>
     ('k T4Geometry, 'k) T4Geometry_methods" where
  "spec_T4Geometry readT4input =
     \<lparr>T4Geometry_ctor = (\<lambda>t4Filename d.
        \<lparr>equivalenceMap = Map.empty, toleranceDelta = d,
         volumes = fst (readT4input t4Filename),
         compos = fst (snd (readT4input t4Filename)),
         surfaceDistance = snd (snd (readT4input t4Filename))\<rparr>),
      which_volume = volumes,
      get_name_from_volume = compos,
      materialInMap = spec_materialInMap,
      addEquivalence = spec_addEquivalence,
      weakEquivalence = spec_weakEquivalence,
      isPointNearSurface = spec_isPointNearSurface\<rparr>"

section \<open>options\_compare.cc\<close>

text \<open>
  \<open>OptionsCompare\<close> is declared in options\_compare.hh, which is not among the sources;
  its members are those the constructor and \<open>get_opts\<close> name. The member \<open>help\<close> is
  \<open>opt_help\<close> here. \<open>npoints\<close> is a \<open>std::unique_ptr<long>\<close>: \<open>None\<close> when it holds
  nothing. The default \<open>1.0E-7\<close> of \<open>delta\<close> is the \<open>double\<close> nearest to \<open>10^-7\<close>.
\<close>

datatype PTRACFormat = BINARY | ASCII

record OptionsCompare =
  opt_help :: bool
  verbosity :: int
  delta :: double
  guessMaterialAssocs :: bool
  ptracFormat :: PTRACFormat
  npoints :: "int option"
  filenames :: "string list"

definition OptionsCompare_new :: OptionsCompare where
  "OptionsCompare_new =
     \<lparr>opt_help = False, verbosity = 0, delta = Finite (1 / 10000000),
      guessMaterialAssocs = False, ptracFormat = BINARY, npoints = None, filenames = []\<rparr>"

text \<open>
  What \<open>get_opts\<close> takes from outside the repository: \<open>int_of_string\<close>; the extraction
  \<open>os >> delta\<close> of a \<open>double\<close> from the text of an argument; and
  \<open>access(fname, R_OK)\<close>. The extraction either stores nothing (\<open>None\<close>: the text is
  empty or blank, the stream fails before it reads a number, and \<open>delta\<close> keeps the value
  it had) or stores a finite number (zero when the text is no number, the largest or the
  lowest \<open>double\<close> when it is out of range; the stream never reads "nan" or "inf").
\<close>

record environment =
  int_of_string :: "string \<Rightarrow> int"
  extract_double :: "string \<Rightarrow> real option"
  access_R_OK :: "string \<Rightarrow> bool"

text \<open>
  One turn of the loop \<open>for (int i = 1; i < argc; i++)\<close>: \<open>opt\<close> is \<open>argv[i]\<close> and
  \<open>rest\<close> the arguments after it. An option with a value reads \<open>argv[i + 1]\<close> after
  \<open>check_argv\<close>, which exits when there is none. The state is the options and the lines
  printed. The result says whether \<open>get_opts\<close> returns here (\<open>--help\<close>) and gives
  \<open>nv\<close>, the number of arguments to step over (\<open>i += nv\<close>).
\<close>

definition get_opts_arg ::
  "environment \<Rightarrow> string \<Rightarrow> string list \<Rightarrow> OptionsCompare \<times> string list \<Rightarrow>
     (error \<times> string list) + (bool \<times> nat \<times> OptionsCompare \<times> string list)" where
  "get_opts_arg env opt rest s =
     (let opts = fst s; out = snd s
      in if opt = ''--help'' \<or> opt = ''-h'' then Inr (True, 0, opts\<lparr>opt_help := True\<rparr>, out)
      else if opt = ''--verbose'' \<or> opt = ''-V'' then
        Inr (False, 0, opts\<lparr>verbosity := wrap_int (verbosity opts + 1)\<rparr>, out)
      else if opt = ''--guess-material-assocs'' \<or> opt = ''-g'' then
        Inr (False, 0, opts\<lparr>guessMaterialAssocs := True\<rparr>, out)
      else if opt = ''--npts'' \<or> opt = ''-n'' then
        (case rest of
           [] \<Rightarrow> Inl (EXIT_FAILURE, out @ [[], ''Error in command line.'', []])
         | v # rest' \<Rightarrow>
             (let npoints_arg = int_of_string env v
              in if npoints_arg \<le> 0 then
                   Inr (False, 1, opts, out @ [''Warning: npoints<=0. Ignored.''])
                 else Inr (False, 1, opts\<lparr>npoints := Some npoints_arg\<rparr>, out)))
      else if opt = ''--delta'' \<or> opt = ''-d'' then
        (case rest of
           [] \<Rightarrow> Inl (EXIT_FAILURE, out @ [[], ''Error in command line.'', []])
         | v # rest' \<Rightarrow>
             (let opts' = (case extract_double env v of
                             None \<Rightarrow> opts
                           | Some x \<Rightarrow> opts\<lparr>delta := Finite x\<rparr>)
              in if dle (delta opts') (Finite 0) then
                   Inr (False, 1, opts'\<lparr>delta := Finite (1 / 10000000)\<rparr>,
                        out @ [''Warning: delta<=0. Setting delta=1.0e-7''])
                 else Inr (False, 1, opts', out)))
      else if opt = ''--binary'' then Inr (False, 0, opts\<lparr>ptracFormat := BINARY\<rparr>, out)
      else if opt = ''--ascii'' then Inr (False, 0, opts\<lparr>ptracFormat := ASCII\<rparr>, out)
      else Inr (False, 0, opts\<lparr>filenames := filenames opts @ [opt]\<rparr>, out))"

fun get_opts_loop ::
  "environment \<Rightarrow> string list \<Rightarrow> OptionsCompare \<times> string list \<Rightarrow>
     (error \<times> string list) + (bool \<times> OptionsCompare \<times> string list)" where
  "get_opts_loop env [] s = Inr (False, s)"
| "get_opts_loop env (opt # rest) s =
     (case get_opts_arg env opt rest s of
        Inl e \<Rightarrow> Inl e
      | Inr (returned, nv, s') \<Rightarrow>
          if returned then Inr (True, s') else get_opts_loop env (drop nv rest) s')"

text \<open>The loop that checks that all the input files exist.\<close>

fun check_files ::
  "environment \<Rightarrow> string \<Rightarrow> string list \<Rightarrow> string list \<Rightarrow> (error \<times> string list) + string list" where
  "check_files env argv0 [] out = Inr out"
| "check_files env argv0 (fname # fnames) out =
     (if \<not> access_R_OK env fname then
        Inl (EXIT_FAILURE,
          out @ [[CHR 0x27] @ fname @ [CHR 0x27] @ '': unknown option or unreachable file.'',
                 ''Try '' @ [CHR 0x27] @ argv0 @ '' --help for more information.'', []])
      else check_files env argv0 fnames out)"

definition get_opts ::
  "environment \<Rightarrow> string list \<Rightarrow> OptionsCompare \<times> string list \<Rightarrow>
     (error \<times> string list) + (OptionsCompare \<times> string list)" where
  "get_opts env argv s =
     (if length argv \<le> 3 then Inr ((fst s)\<lparr>opt_help := True\<rparr>, snd s)
      else
        (case get_opts_loop env (drop 1 argv) s of
           Inl e \<Rightarrow> Inl e
         | Inr (returned, opts, out) \<Rightarrow>
             if returned then Inr (opts, out)
             else (case check_files env (argv ! 0) (filenames opts) out of
                     Inl e \<Rightarrow> Inl e
                   | Inr out' \<Rightarrow> Inr (opts, out'))))"

section \<open>Predicates on runs\<close>



text \<open>
  Two geometries answer alike at a sampled point: the same volume, the same composition
  for that volume and the same answer on the nearness of a surface, whatever the state of
  the geometry object.
\<close>

definition same_lookups ::
  "('g, 'k) T4Geometry_methods \<Rightarrow> ('g, 'k) T4Geometry_methods \<Rightarrow> 'k ptrac_point \<Rightarrow> bool" where
  "same_lookups T T' p =
     (\<forall>g. which_volume T' g (getPointXyz p) = which_volume T g (getPointXyz p)
        \<and> get_name_from_volume T' g (which_volume T g (getPointXyz p))
            = get_name_from_volume T g (which_volume T g (getPointXyz p))
        \<and> isPointNearSurface T' g (getPointXyz p) (which_volume T g (getPointXyz p))
            = isPointNearSurface T g (getPointXyz p) (which_volume T g (getPointXyz p)))"

section \<open>A small geometry and a small PTRAC file\<close>

text \<open>
  The scenarios of the spec, as data. One material signature, \<open>(1, 1.0)\<close>. The point
  \<open>(0, 0, 0)\<close> lies in volume 1, of composition UO2; the points \<open>(1, 0, 0)\<close>,
  \<open>(2, 0, 0)\<close> and \<open>(3, 0, 0)\<close> lie in volume 2, of composition H2O, at the distances
  \<open>2.0e-7\<close>, \<open>5.0e-8\<close> and \<open>1.0e-7\<close> from its surface; every other point is outside
  (rank \<open>-1\<close>).
\<close>

definition example_point :: "real \<Rightarrow> (int \<times> double) ptrac_point" where
  "example_point x =
     \<lparr>getPointXyz = [Finite x, Finite 0, Finite 0], getMaterialDensity = (1, Finite 1)\<rparr>"

definition example_volumes :: "double list \<Rightarrow> int" where
  "example_volumes point =
     (if point = [Finite 0, Finite 0, Finite 0] then 1
      else if point = [Finite 1, Finite 0, Finite 0] \<or> point = [Finite 2, Finite 0, Finite 0]
              \<or> point = [Finite 3, Finite 0, Finite 0] then 2
      else - 1)"

definition example_compos :: "int \<Rightarrow> string" where
  "example_compos rank = (if rank = 1 then ''UO2'' else ''H2O'')"

definition example_surfaceDistance :: "double list \<Rightarrow> int \<Rightarrow> double" where
  "example_surfaceDistance point rank =
     (if point = [Finite 1, Finite 0, Finite 0] then Finite (2 / 10000000)
      else if point = [Finite 2, Finite 0, Finite 0] then Finite (5 / 100000000)
      else if point = [Finite 3, Finite 0, Finite 0] then Finite (1 / 10000000)
      else Finite 1)"

definition example_methods :: "((int \<times> double) T4Geometry, int \<times> double) T4Geometry_methods" where
  "example_methods =
     spec_T4Geometry (\<lambda>t4Filename. (example_volumes, example_compos, example_surfaceDistance))"

text \<open>The geometry object built with the tolerance \<open>1.0e-7\<close>, its map empty.\<close>

definition example_t4Geom :: "(int \<times> double) T4Geometry" where
  "example_t4Geom = T4Geometry_ctor example_methods ''jdd.t4'' (Finite (1 / 10000000))"

text \<open>
  Six sampled points: the first defines the equivalence, the second confirms it, the
  third and the fourth mismatch (far from the surface, then near it), the fifth is outside,
  and a sixth follows.
\<close>

definition example_ptrac :: "(int \<times> double) ptrac_point list" where
  "example_ptrac =
     [example_point 0, example_point 0, example_point 1, example_point 2, example_point 9,
      example_point 0]"

definition example_mcnp :: "string \<Rightarrow> string \<Rightarrow> (int \<times> double) MCNPGeometry" where
  "example_mcnp ptracFile inpFile = \<lparr>getNPS = 6, ptrac = example_ptrac\<rparr>"

text \<open>
  A second geometry, which answers as the first one everywhere but at the point
  \<open>(7, 0, 0)\<close>: there it finds volume 3, where the first finds none.
\<close>

definition example_methods' :: "((int \<times> double) T4Geometry, int \<times> double) T4Geometry_methods" where
  "example_methods' =
     example_methods\<lparr>which_volume :=
       (\<lambda>g point. if point = [Finite 7, Finite 0, Finite 0] then 3 else volumes g point)\<rparr>"

text \<open>The geometry object once the first point has defined the equivalence.\<close>

definition example_t4Geom1 :: "(int \<times> double) T4Geometry" where
  "example_t4Geom1 = example_t4Geom\<lparr>equivalenceMap := [(1, Finite 1) \<mapsto> ''UO2'']\<rparr>"

text \<open>
  A command line that gives \<open>--delta\<close> the value \<open>-1\<close>, and one that gives it \<open>0.5\<close>
  and then an empty value, with readers of numbers that know the few texts used here
  (nothing is extracted from the empty text), and files that can all be read.
\<close>

definition example_environment :: environment where
  "example_environment =
     \<lparr>int_of_string = (\<lambda>s. if s = ''100'' then 100 else 0),
      extract_double = (\<lambda>s. if s = [] then None
                               else if s = ''-1'' then Some (- 1)
                               else if s = ''0.5'' then Some (1 / 2) else Some 0),
      access_R_OK = (\<lambda>fname. True)\<rparr>"

definition example_argv :: "string list" where
  "example_argv = [''oracle'', ''--delta'', ''-1'', ''jdd.t4'', ''jdd.inp'', ''ptrac'']"

definition example_argv_blank :: "string list" where
  "example_argv_blank = [''oracle'', ''--delta'', ''0.5'', ''--delta'', [], ''jdd.t4'']"

section \<open>Arithmetic of the counters\<close>

lemma wrap_int_id: "- 2147483648 \<le> x \<Longrightarrow> x \<le> 2147483647 \<Longrightarrow> wrap_int x = x"
  by (simp add: wrap_int_def)

lemma wrap_int_succ: "- INT_MAX - 1 \<le> c \<Longrightarrow> c < INT_MAX \<Longrightarrow> wrap_int (c + 1) = c + 1"
  by (simp add: wrap_int_id INT_MAX_def)

text \<open>An increment always changes the counter, also where it wraps around.\<close>

lemma wrap_int_succ_neq: "wrap_int (c + 1) \<noteq> c"
proof
  assume h: "wrap_int (c + 1) = c"
  define y where "y = c + 2147483648"
  from h have e: "(y + 1) mod 4294967296 = y"
    by (simp add: wrap_int_def y_def algebra_simps)
  then have "y mod 4294967296 = y"
    by (metis mod_mod_trivial)
  with e have "(y + 1) mod 4294967296 = y mod 4294967296" by simp
  then have "(4294967296::int) dvd (y + 1 - y)"
    using mod_eq_dvd_iff by blast
  then show False by simp
qed

section \<open>The operations of Statistics\<close>

text \<open>
  Claim C3, as the code has it. Statistics.cc keeps counting and recording apart:
  \<open>incrementSuccess\<close>, \<open>incrementFailure\<close>, \<open>incrementIgnore\<close> and
  \<open>incrementOutside\<close> each add one to their own counter (below \<open>INT_MAX\<close>) and leave the
  other three counters and the list of failed points as they are; \<open>recordFailure\<close>
  appends exactly one \<open>failedPoint\<close>, which carries the distance given, and leaves all four
  counters as they are.
\<close>

theorem Statistics_operations_frame:
  assumes "\<forall>c \<in> set (counters st). - INT_MAX - 1 \<le> c \<and> c < INT_MAX"
    and "3 \<le> length position"
  shows "counters (incrementSuccess st) = [nbSuccess st + 1, nbFailure st, nbIgnored st, nbOutside st]
       \<and> failures (incrementSuccess st) = failures st
     \<and> counters (incrementFailure st) = [nbSuccess st, nbFailure st + 1, nbIgnored st, nbOutside st]
       \<and> failures (incrementFailure st) = failures st
     \<and> counters (incrementIgnore st) = [nbSuccess st, nbFailure st, nbIgnored st + 1, nbOutside st]
       \<and> failures (incrementIgnore st) = failures st
     \<and> counters (incrementOutside st) = [nbSuccess st, nbFailure st, nbIgnored st, nbOutside st + 1]
       \<and> failures (incrementOutside st) = failures st
     \<and> (\<exists>st' fp. recordFailure position rank pointID cellID materialID d st = Inr st'
           \<and> counters st' = counters st \<and> failures st' = failures st @ [fp] \<and> fp_dist fp = d)"
proof -
  from assms(1) have r:
    "- INT_MAX - 1 \<le> nbSuccess st" "nbSuccess st < INT_MAX"
    "- INT_MAX - 1 \<le> nbFailure st" "nbFailure st < INT_MAX"
    "- INT_MAX - 1 \<le> nbIgnored st" "nbIgnored st < INT_MAX"
    "- INT_MAX - 1 \<le> nbOutside st" "nbOutside st < INT_MAX"
    by (simp_all add: counters_def)
  have s: "counters (incrementSuccess st) = [nbSuccess st + 1, nbFailure st, nbIgnored st, nbOutside st]
       \<and> failures (incrementSuccess st) = failures st"
    using r by (simp add: counters_def incrementSuccess_def wrap_int_succ)
  have f: "counters (incrementFailure st) = [nbSuccess st, nbFailure st + 1, nbIgnored st, nbOutside st]
       \<and> failures (incrementFailure st) = failures st"
    using r by (simp add: counters_def incrementFailure_def wrap_int_succ)
  have i: "counters (incrementIgnore st) = [nbSuccess st, nbFailure st, nbIgnored st + 1, nbOutside st]
       \<and> failures (incrementIgnore st) = failures st"
    using r by (simp add: counters_def incrementIgnore_def wrap_int_succ)
  have o: "counters (incrementOutside st) = [nbSuccess st, nbFailure st, nbIgnored st, nbOutside st + 1]
       \<and> failures (incrementOutside st) = failures st"
    using r by (simp add: counters_def incrementOutside_def wrap_int_succ)
  have rf: "\<exists>st' fp. recordFailure position rank pointID cellID materialID d st = Inr st'
           \<and> counters st' = counters st \<and> failures st' = failures st @ [fp] \<and> fp_dist fp = d"
    using assms(2) by (simp add: recordFailure_def counters_def)
  from s f i o rf show ?thesis by blast
qed

text \<open>The operations on the statistics of a run that has not started.\<close>

theorem Statistics_operations_frame_witness:
  "counters (incrementSuccess Statistics_new) = [1, 0, 0, 0]
   \<and> counters (incrementFailure Statistics_new) = [0, 1, 0, 0]
   \<and> failures (incrementFailure Statistics_new) = []
   \<and> counters (incrementIgnore Statistics_new) = [0, 0, 1, 0]
   \<and> counters (incrementOutside Statistics_new) = [0, 0, 0, 1]
   \<and> (\<exists>st' fp. recordFailure [Finite 1, Finite 2, Finite 3] 4 5 6 7 (Finite (1/2)) Statistics_new = Inr st'
           \<and> counters st' = [0, 0, 0, 0] \<and> failures st' = [fp] \<and> fp_dist fp = Finite (1/2))"
proof -
  have h1: "\<forall>c \<in> set (counters Statistics_new). - INT_MAX - 1 \<le> c \<and> c < INT_MAX"
    by (simp add: counters_def Statistics_new_def INT_MAX_def)
  have h2: "3 \<le> length [Finite 1, Finite 2, Finite 3]" by simp
  have v: "nbSuccess Statistics_new = 0" "nbFailure Statistics_new = 0"
    "nbIgnored Statistics_new = 0" "nbOutside Statistics_new = 0" "failures Statistics_new = []"
    "counters Statistics_new = [0, 0, 0, 0]"
    by (simp_all add: Statistics_new_def counters_def)
  show ?thesis
    using Statistics_operations_frame [OF h1 h2, of 4 5 6 7 "Finite (1/2)"]
    by (simp add: v)
qed

text \<open>
  Claim C3 as the spec words it fails: \<open>recordFailure\<close> appends its entry and increments
  no counter. After one call on fresh statistics the list has one entry and the four
  counters are still zero.
\<close>

theorem recordFailure_counts_nothing:
  "\<exists>st'. recordFailure [Finite 1, Finite 2, Finite 3] 4 5 6 7 (Finite (1/2)) Statistics_new = Inr st'
     \<and> length (failures st') = 1 \<and> counters st' = [0, 0, 0, 0]"
  by (simp add: recordFailure_def counters_def Statistics_new_def)

section \<open>The report\<close>

text \<open>
  Claim C4 at a run with no failed point: whatever the other members of the statistics
  are, with an empty list of failures \<open>report\<close> divides \<open>0.\<close> by the size zero and prints
  the result, NaN, as the average distance, and prints \<open>0\<close> as the maximum distance. It
  does not report them as undefined.
\<close>

theorem report_without_failures:
  "rp_averageDist (report (st\<lparr>failures := []\<rparr>)) = NaN
   \<and> rp_maxDist (report (st\<lparr>failures := []\<rparr>)) = Finite 0"
  by (simp add: report_def Let_def)

section \<open>The loop of compare\_geoms\<close>

lemma compare_geoms_loop_append:
  "compare_geoms_loop T gs (ps @ qs) =
     (case compare_geoms_loop T gs ps of Inl e \<Rightarrow> Inl e | Inr gs' \<Rightarrow> compare_geoms_loop T gs' qs)"
  by (induction ps arbitrary: gs) (auto split: sum.splits)

lemma compare_geoms_body_Inl:
  "compare_geoms_body T gs p = Inl e \<Longrightarrow>
     e = (EXIT_FAILURE, gs) \<and> which_volume T (fst gs) (getPointXyz p) < 0"
  by (simp add: compare_geoms_body_def Let_def split: if_splits)


lemma compare_geoms_body_outside:
  "which_volume T (fst gs) (getPointXyz p) < 0 \<Longrightarrow>
     compare_geoms_body T gs p = Inl (EXIT_FAILURE, gs)"
  by (simp add: compare_geoms_body_def Let_def)

subsection \<open>The run on the small example\<close>

lemmas example_defs =
  example_methods_def example_t4Geom_def example_ptrac_def example_point_def
  example_volumes_def example_compos_def example_surfaceDistance_def example_mcnp_def
  spec_T4Geometry_def spec_materialInMap_def spec_addEquivalence_def spec_weakEquivalence_def
  spec_isPointNearSurface_def dle_def deq_def

lemmas run_defs =
  compare_geoms_body_def Let_def incrementSuccess_def incrementFailure_def incrementIgnore_def
  Statistics_new_def wrap_int_def


lemma example_run4:
  "compare_geoms_loop example_methods (example_t4Geom, Statistics_new) (take 4 example_ptrac) =
     Inr (example_t4Geom\<lparr>equivalenceMap := [(1, Finite 1) \<mapsto> ''UO2'']\<rparr>,
          Statistics_new\<lparr>nbSuccess := 2, nbFailure := 1, nbIgnored := 1\<rparr>)"
  by (simp add: example_defs run_defs)


lemma example_stats4:
  "counters (stats_after example_methods (example_t4Geom, Statistics_new) example_ptrac 4)
     = [2, 1, 1, 0]"
  unfolding stats_after_def example_run4
  by (simp add: run_state_def counters_def Statistics_new_def)

subsection \<open>A point outside the geometry\<close>

text \<open>
  Claim C2, as the code has it. When the run has come through the points \<open>ps\<close> and the
  next point \<open>p\<close> is in no volume (\<open>rank < 0\<close>), the run exits with \<open>EXIT_FAILURE\<close> at
  once: the points \<open>qs\<close> after \<open>p\<close> are not processed, and the statistics at the exit are
  those reached before \<open>p\<close>, so that no counter, \<open>nbOutside\<close> included, has counted \<open>p\<close>.
\<close>

theorem compare_geoms_exits_at_outside:
  assumes "compare_geoms_loop T gs ps = Inr gs'"
    and "which_volume T (fst gs') (getPointXyz p) < 0"
  shows "compare_geoms_loop T gs (ps @ p # qs) = Inl (EXIT_FAILURE, gs')"
  using assms by (simp add: compare_geoms_loop_append compare_geoms_body_outside)

text \<open>The example: four points are classified, the fifth is outside, the sixth is not read.\<close>

theorem compare_geoms_exits_at_outside_witness:
  "compare_geoms_loop example_methods (example_t4Geom, Statistics_new) (take 4 example_ptrac)
     = Inr (example_t4Geom\<lparr>equivalenceMap := [(1, Finite 1) \<mapsto> ''UO2'']\<rparr>,
            Statistics_new\<lparr>nbSuccess := 2, nbFailure := 1, nbIgnored := 1\<rparr>)
   \<and> which_volume example_methods (example_t4Geom\<lparr>equivalenceMap := [(1, Finite 1) \<mapsto> ''UO2'']\<rparr>)
        (getPointXyz (example_point 9)) < 0
   \<and> compare_geoms_loop example_methods (example_t4Geom, Statistics_new)
        (take 4 example_ptrac @ example_point 9 # [example_point 0])
     = Inl (EXIT_FAILURE, example_t4Geom\<lparr>equivalenceMap := [(1, Finite 1) \<mapsto> ''UO2'']\<rparr>,
            Statistics_new\<lparr>nbSuccess := 2, nbFailure := 1, nbIgnored := 1\<rparr>)"
proof -
  have h2: "which_volume example_methods
      (fst (example_t4Geom\<lparr>equivalenceMap := [(1, Finite 1) \<mapsto> ''UO2'']\<rparr>,
            Statistics_new\<lparr>nbSuccess := 2, nbFailure := 1, nbIgnored := 1\<rparr>))
      (getPointXyz (example_point 9)) < 0"
    by (simp add: example_defs)
  from compare_geoms_exits_at_outside [OF example_run4 h2, of "[example_point 0]"] example_run4 h2
  show ?thesis by simp
qed

text \<open>
  Claim C2 as the spec words it fails: a run whose only point is outside exits with
  \<open>nbOutside\<close> at zero, as it was at the start. \<open>compare_geoms\<close> never calls
  \<open>incrementOutside\<close>.
\<close>

theorem outside_counter_not_incremented:
  "\<exists>g st. compare_geoms_loop example_methods (example_t4Geom, Statistics_new) [example_point 9]
             = Inl (EXIT_FAILURE, g, st)
     \<and> nbOutside st = 0 \<and> nbOutside Statistics_new = 0"
  by (simp add: example_defs run_defs)

subsection \<open>The counters during a run\<close>










subsection \<open>Two runs on the same points\<close>

lemma compare_geoms_body_same_lookups:
  assumes "materialInMap T' = materialInMap T" and "addEquivalence T' = addEquivalence T"
    and "weakEquivalence T' = weakEquivalence T" and "same_lookups T T' p"
  shows "compare_geoms_body T' gs p = compare_geoms_body T gs p"
proof -
  from assms(4) have
    "which_volume T' (fst gs) (getPointXyz p) = which_volume T (fst gs) (getPointXyz p)"
    "get_name_from_volume T' (fst gs) (which_volume T (fst gs) (getPointXyz p))
       = get_name_from_volume T (fst gs) (which_volume T (fst gs) (getPointXyz p))"
    "isPointNearSurface T' (fst gs) (getPointXyz p) (which_volume T (fst gs) (getPointXyz p))
       = isPointNearSurface T (fst gs) (getPointXyz p) (which_volume T (fst gs) (getPointXyz p))"
    by (simp_all add: same_lookups_def)
  then show ?thesis
    by (simp add: compare_geoms_body_def Let_def assms(1,2,3))
qed

lemma compare_geoms_loop_same_lookups:
  assumes "materialInMap T' = materialInMap T" and "addEquivalence T' = addEquivalence T"
    and "weakEquivalence T' = weakEquivalence T" and "\<forall>p \<in> set ps. same_lookups T T' p"
  shows "compare_geoms_loop T' gs ps = compare_geoms_loop T gs ps"
  using assms(4)
proof (induction ps arbitrary: gs)
  case Nil
  show ?case by simp
next
  case (Cons p ps)
  then have "compare_geoms_body T' gs p = compare_geoms_body T gs p"
    by (simp add: compare_geoms_body_same_lookups [OF assms(1,2,3)])
  with Cons show ?case by (simp split: sum.splits)
qed

text \<open>
  Claim C9. A run is determined by its sequence of points and the target lookups at these
  points. Two runs that start from the same state (for the claim: the fresh geometry
  object and fresh statistics) over the same points, with geometries that keep the
  equivalences in the same way and answer alike at the points of the sequence (they may
  differ anywhere else), are in the same state after every number \<open>n\<close> of points: the same
  exit or the same geometry object and the same statistics, hence the same classification
  of each point and the same final counters. With \<open>T' = T\<close> this is the second run of
  the same input.
\<close>

theorem run_determined_by_points_and_lookups:
  assumes "materialInMap T' = materialInMap T" and "addEquivalence T' = addEquivalence T"
    and "weakEquivalence T' = weakEquivalence T" and "\<forall>p \<in> set ps. same_lookups T T' p"
  shows "compare_geoms_loop T' gs (take n ps) = compare_geoms_loop T gs (take n ps)
       \<and> stats_after T' gs ps n = stats_after T gs ps n
       \<and> t4Geom_after T' gs ps n = t4Geom_after T gs ps n"
proof -
  from assms(4) have "\<forall>p \<in> set (take n ps). same_lookups T T' p"
    by (meson in_set_takeD)
  from compare_geoms_loop_same_lookups [OF assms(1,2,3) this]
  show ?thesis by (simp add: stats_after_def t4Geom_after_def)
qed

text \<open>
  The example with its second geometry, which differs from the first at a point that is
  not sampled.
\<close>

theorem run_determined_by_points_and_lookups_witness:
  "which_volume example_methods' example_t4Geom [Finite 7, Finite 0, Finite 0]
     \<noteq> which_volume example_methods example_t4Geom [Finite 7, Finite 0, Finite 0]
   \<and> compare_geoms_loop example_methods' (example_t4Geom, Statistics_new) (take 4 example_ptrac)
       = compare_geoms_loop example_methods (example_t4Geom, Statistics_new) (take 4 example_ptrac)
   \<and> counters (stats_after example_methods' (example_t4Geom, Statistics_new) example_ptrac 4) = [2, 1, 1, 0]"
proof -
  have h1: "materialInMap example_methods' = materialInMap example_methods"
    and h2: "addEquivalence example_methods' = addEquivalence example_methods"
    and h3: "weakEquivalence example_methods' = weakEquivalence example_methods"
    by (simp_all add: example_methods'_def)
  have h4: "\<forall>p \<in> set example_ptrac. same_lookups example_methods example_methods' p"
    by (simp add: same_lookups_def example_methods'_def example_defs)
  have d: "which_volume example_methods' example_t4Geom [Finite 7, Finite 0, Finite 0]
     \<noteq> which_volume example_methods example_t4Geom [Finite 7, Finite 0, Finite 0]"
    by (simp add: example_methods'_def example_defs)
  from run_determined_by_points_and_lookups [OF h1 h2 h3 h4, of "(example_t4Geom, Statistics_new)" 4]
    d example_stats4
  show ?thesis by simp
qed

section \<open>The export of the failed points\<close>

text \<open>
  Claim C5 at a run of \<open>compare_geoms\<close>. On the first four points of the example (with
  the tolerance \<open>0.0\<close> that \<open>compare_geoms\<close> gives the geometry object) two points fail:
  \<open>nbFailure\<close> is 2, and the list of failed points is empty, since \<open>compare_geoms\<close>
  counts a failure and never records it. \<open>writeOutForVisu\<close> loops up to \<open>nbFailure\<close> and
  reads \<open>failures[0]\<close> past the end of the empty list, where one row for each entry of the
  list would be no row.
\<close>

theorem writeOutForVisu_after_failures:
  "\<exists>stats. compare_geoms example_methods example_mcnp [''jdd.t4'', ''jdd.inp'', ''ptrac''] 4 = Inr stats
     \<and> nbFailure stats = 2 \<and> failures stats = []
     \<and> writeOutForVisu stats ''outputViz.txt'' = Inl undefined_behaviour"
proof -
  have r: "compare_geoms example_methods example_mcnp [''jdd.t4'', ''jdd.inp'', ''ptrac''] 4
     = Inr (Statistics_new\<lparr>nbSuccess := 2, nbFailure := 2\<rparr>)"
    by (simp add: compare_geoms_def readPtracData_def example_defs run_defs)
  have s: "store_loop [] 2 0 [] = Inl undefined_behaviour"
    by (subst store_loop.simps) simp
  have n: "getRawFileName ''outputViz.txt'' = Inr ''outputViz''"
    by (simp add: getRawFileName_def substr_def)
  have "writeOutForVisu (Statistics_new\<lparr>nbSuccess := 2, nbFailure := 2\<rparr>) ''outputViz.txt''
     = Inl undefined_behaviour"
    by (simp add: writeOutForVisu_def n s Statistics_new_def)
  with r show ?thesis by (simp add: Statistics_new_def)
qed

section \<open>The classification of one point\<close>

lemmas example_geom_defs =
  example_t4Geom1_def example_t4Geom_def example_point_def
  example_volumes_def example_compos_def example_surfaceDistance_def
  spec_T4Geometry_def dle_def deq_def

text \<open>
  Claim C1, for a point inside the geometry (\<open>rank \<ge> 0\<close>), with the class
  \<open>T4Geometry\<close> as the spec describes it. The outcome of a point is the counter that
  \<open>compare_geoms\<close> increments for it. When the key is not in the map, the body of the loop
  inserts \<open>key \<mapsto> targetComposition\<close> and counts a success; when the map holds the key
  with the composition found, it counts a success; on a mismatch it counts the point as
  ignored if \<open>surfaceDistance <= toleranceDelta\<close> and as a failure otherwise, and in these
  three cases the map is left as it is.
\<close>

theorem classify_cases:
  fixes g :: "'k T4Geometry" and p :: "'k ptrac_point" and stats :: Statistics
    and R :: "string \<Rightarrow> (double list \<Rightarrow> int) \<times> (int \<Rightarrow> string) \<times> (double list \<Rightarrow> int \<Rightarrow> double)"
  defines "key \<equiv> getMaterialDensity p"
    and "rank \<equiv> volumes g (getPointXyz p)"
    and "targetComposition \<equiv> compos g (volumes g (getPointXyz p))"
    and "result \<equiv> compare_geoms_body (spec_T4Geometry R) (g, stats) p"
  assumes "0 \<le> rank"
  shows "(equivalenceMap g key = None \<longrightarrow>
            result = Inr (g\<lparr>equivalenceMap := (equivalenceMap g)(key \<mapsto> targetComposition)\<rparr>,
                          incrementSuccess stats))
       \<and> (equivalenceMap g key = Some targetComposition \<longrightarrow>
            result = Inr (g, incrementSuccess stats))
       \<and> (\<forall>expected. equivalenceMap g key = Some expected \<and> expected \<noteq> targetComposition \<longrightarrow>
            (dle (surfaceDistance g (getPointXyz p) rank) (toleranceDelta g) \<longrightarrow>
               result = Inr (g, incrementIgnore stats))
          \<and> (\<not> dle (surfaceDistance g (getPointXyz p) rank) (toleranceDelta g) \<longrightarrow>
               result = Inr (g, incrementFailure stats)))"
  using assms(5)
  unfolding key_def rank_def targetComposition_def result_def
  by (auto simp add: compare_geoms_body_def Let_def spec_T4Geometry_def spec_materialInMap_def
        spec_addEquivalence_def spec_weakEquivalence_def spec_isPointNearSurface_def dom_def)

text \<open>
  The scenarios 1 to 3 of the spec, with the tolerance \<open>1.0e-7\<close>: the first sight of the
  key, the same composition again, a mismatch at the distance \<open>2.0e-7\<close> and a mismatch at
  the distance \<open>5.0e-8\<close>.
\<close>

theorem classify_cases_witness:
  "compare_geoms_body example_methods (example_t4Geom, Statistics_new) (example_point 0)
     = Inr (example_t4Geom1, incrementSuccess Statistics_new)
   \<and> compare_geoms_body example_methods (example_t4Geom1, Statistics_new) (example_point 0)
     = Inr (example_t4Geom1, incrementSuccess Statistics_new)
   \<and> compare_geoms_body example_methods (example_t4Geom1, Statistics_new) (example_point 1)
     = Inr (example_t4Geom1, incrementFailure Statistics_new)
   \<and> compare_geoms_body example_methods (example_t4Geom1, Statistics_new) (example_point 2)
     = Inr (example_t4Geom1, incrementIgnore Statistics_new)"
proof -
  let ?R = "\<lambda>t4Filename::string. (example_volumes, example_compos, example_surfaceDistance)"
  have a: "compare_geoms_body example_methods (example_t4Geom, Statistics_new) (example_point 0)
     = Inr (example_t4Geom1, incrementSuccess Statistics_new)"
    using classify_cases [where g = example_t4Geom and p = "example_point 0"
        and stats = Statistics_new and R = ?R]
    by (simp add: example_methods_def [symmetric]) (simp add: example_methods_def example_geom_defs)
  have b: "compare_geoms_body example_methods (example_t4Geom1, Statistics_new) (example_point 0)
     = Inr (example_t4Geom1, incrementSuccess Statistics_new)"
    using classify_cases [where g = example_t4Geom1 and p = "example_point 0"
        and stats = Statistics_new and R = ?R]
    by (simp add: example_methods_def [symmetric]) (simp add: example_methods_def example_geom_defs)
  have c: "compare_geoms_body example_methods (example_t4Geom1, Statistics_new) (example_point 1)
     = Inr (example_t4Geom1, incrementFailure Statistics_new)"
    using classify_cases [where g = example_t4Geom1 and p = "example_point 1"
        and stats = Statistics_new and R = ?R]
    by (simp add: example_methods_def [symmetric]) (simp add: example_methods_def example_geom_defs)
  have d: "compare_geoms_body example_methods (example_t4Geom1, Statistics_new) (example_point 2)
     = Inr (example_t4Geom1, incrementIgnore Statistics_new)"
    using classify_cases [where g = example_t4Geom1 and p = "example_point 2"
        and stats = Statistics_new and R = ?R]
    by (simp add: example_methods_def [symmetric]) (simp add: example_methods_def example_geom_defs)
  from a b c d show ?thesis by simp
qed

subsection \<open>A mismatch at exactly the tolerance\<close>

lemma incrementIgnore_neq_incrementFailure: "incrementIgnore st \<noteq> incrementFailure st"
proof
  assume "incrementIgnore st = incrementFailure st"
  then have "nbIgnored (incrementIgnore st) = nbIgnored (incrementFailure st)" by simp
  then have "wrap_int (nbIgnored st + 1) = nbIgnored st"
    by (simp add: incrementIgnore_def incrementFailure_def)
  then show False by (simp add: wrap_int_succ_neq)
qed

text \<open>
  Claim C8, with the class \<open>T4Geometry\<close> as the spec describes it. A point inside the
  geometry whose composition mismatches the one the map holds for its key, and whose
  distance to the surface equals the tolerance (\<open>==\<close> on \<open>double\<close>), is counted as
  ignored, and is not counted as a failure.
\<close>

theorem mismatch_at_tolerance_is_ignored:
  assumes "0 \<le> volumes g (getPointXyz p)"
    and "equivalenceMap g (getMaterialDensity p) = Some expected"
    and "expected \<noteq> compos g (volumes g (getPointXyz p))"
    and "deq (surfaceDistance g (getPointXyz p) (volumes g (getPointXyz p))) (toleranceDelta g)"
  shows "compare_geoms_body (spec_T4Geometry R) (g, stats) p = Inr (g, incrementIgnore stats)
       \<and> compare_geoms_body (spec_T4Geometry R) (g, stats) p \<noteq> Inr (g, incrementFailure stats)"
proof -
  from assms(4) have "dle (surfaceDistance g (getPointXyz p) (volumes g (getPointXyz p))) (toleranceDelta g)"
    by (simp add: dle_def)
  with assms(1,2,3) have "compare_geoms_body (spec_T4Geometry R) (g, stats) p = Inr (g, incrementIgnore stats)"
    by (auto simp add: compare_geoms_body_def Let_def spec_T4Geometry_def spec_materialInMap_def
        spec_weakEquivalence_def spec_isPointNearSurface_def dom_def)
  then show ?thesis by (simp add: incrementIgnore_neq_incrementFailure)
qed

text \<open>The point \<open>(3, 0, 0)\<close> of the example, at the distance \<open>1.0e-7\<close>, the tolerance.\<close>

theorem mismatch_at_tolerance_is_ignored_witness:
  "deq (surfaceDistance example_t4Geom1 (getPointXyz (example_point 3))
          (volumes example_t4Geom1 (getPointXyz (example_point 3))))
       (toleranceDelta example_t4Geom1)
   \<and> equivalenceMap example_t4Geom1 (getMaterialDensity (example_point 3)) = Some ''UO2''
   \<and> compos example_t4Geom1 (volumes example_t4Geom1 (getPointXyz (example_point 3))) = ''H2O''
   \<and> compare_geoms_body example_methods (example_t4Geom1, Statistics_new) (example_point 3)
     = Inr (example_t4Geom1, incrementIgnore Statistics_new)"
proof -
  let ?R = "\<lambda>t4Filename::string. (example_volumes, example_compos, example_surfaceDistance)"
  have h1: "0 \<le> volumes example_t4Geom1 (getPointXyz (example_point 3))"
    by (simp add: example_methods_def example_geom_defs)
  have h2: "equivalenceMap example_t4Geom1 (getMaterialDensity (example_point 3)) = Some ''UO2''"
    by (simp add: example_methods_def example_geom_defs)
  have c: "compos example_t4Geom1 (volumes example_t4Geom1 (getPointXyz (example_point 3))) = ''H2O''"
    by (simp add: example_methods_def example_geom_defs)
  have h3: "''UO2'' \<noteq> compos example_t4Geom1 (volumes example_t4Geom1 (getPointXyz (example_point 3)))"
    by (simp add: c)
  have h4: "deq (surfaceDistance example_t4Geom1 (getPointXyz (example_point 3))
          (volumes example_t4Geom1 (getPointXyz (example_point 3))))
       (toleranceDelta example_t4Geom1)"
    by (simp add: example_methods_def example_geom_defs)
  from mismatch_at_tolerance_is_ignored [OF h1 h2 h3 h4, of ?R Statistics_new] h2 c h4
  show ?thesis by (simp add: example_methods_def [symmetric])
qed

section \<open>The equivalence map during a run\<close>

lemma spec_body_keeps_entries:
  assumes "compare_geoms_body (spec_T4Geometry R) gs p = Inr gs'"
    and "equivalenceMap (fst gs) key = Some compo"
  shows "equivalenceMap (fst gs') key = Some compo"
  using assms
  by (auto simp add: compare_geoms_body_def Let_def spec_T4Geometry_def spec_materialInMap_def
        spec_addEquivalence_def dom_def split: if_splits)

lemma spec_loop_keeps_entries:
  assumes "equivalenceMap (fst gs) key = Some compo"
  shows "equivalenceMap (fst (run_state (compare_geoms_loop (spec_T4Geometry R) gs ps))) key = Some compo"
  using assms
proof (induction ps arbitrary: gs)
  case Nil
  then show ?case by (simp add: run_state_def)
next
  case (Cons p ps)
  show ?case
  proof (cases "compare_geoms_body (spec_T4Geometry R) gs p")
    case (Inl e)
    then have "e = (EXIT_FAILURE, gs)" by (simp add: compare_geoms_body_Inl)
    with Inl Cons.prems show ?thesis by (simp add: run_state_def)
  next
    case (Inr gs')
    from spec_body_keeps_entries [OF Inr Cons.prems]
    have "equivalenceMap (fst gs') key = Some compo" .
    from Cons.IH [OF this] Inr show ?thesis by simp
  qed
qed

text \<open>The state after \<open>n\<close> points is reached from the state after \<open>m \<le> n\<close> points.\<close>

lemma run_state_take_split:
  assumes "m \<le> n"
  shows "\<exists>qs. run_state (compare_geoms_loop T gs (take n ps))
     = run_state (compare_geoms_loop T (run_state (compare_geoms_loop T gs (take m ps))) qs)"
proof -
  have split: "take n ps = take m ps @ drop m (take n ps)"
    using assms by (metis append_take_drop_id min.absorb1 take_take)
  show ?thesis
  proof (cases "compare_geoms_loop T gs (take m ps)")
    case (Inl e)
    then have "compare_geoms_loop T gs (take n ps) = Inl e"
      by (subst split) (simp add: compare_geoms_loop_append)
    with Inl have "run_state (compare_geoms_loop T gs (take n ps))
       = run_state (compare_geoms_loop T (run_state (compare_geoms_loop T gs (take m ps))) [])"
      by (simp add: run_state_def)
    then show ?thesis ..
  next
    case (Inr gs')
    then have "compare_geoms_loop T gs (take n ps) = compare_geoms_loop T gs' (drop m (take n ps))"
      by (subst split) (simp add: compare_geoms_loop_append)
    with Inr have "run_state (compare_geoms_loop T gs (take n ps))
       = run_state (compare_geoms_loop T (run_state (compare_geoms_loop T gs (take m ps)))
           (drop m (take n ps)))"
      by (simp add: run_state_def)
    then show ?thesis ..
  qed
qed

text \<open>
  Claim C6, with the class \<open>T4Geometry\<close> as the spec describes it. An entry that the
  map holds after \<open>m\<close> points of a run is in the map, with the same composition, after any
  greater number \<open>n\<close> of points: entries are neither removed nor changed.
\<close>

theorem equivalenceMap_write_once:
  assumes "m \<le> n"
    and "equivalenceMap (t4Geom_after (spec_T4Geometry R) gs ps m) key = Some compo"
  shows "equivalenceMap (t4Geom_after (spec_T4Geometry R) gs ps n) key = Some compo"
proof -
  from run_state_take_split [OF assms(1)] obtain qs where
    "run_state (compare_geoms_loop (spec_T4Geometry R) gs (take n ps))
       = run_state (compare_geoms_loop (spec_T4Geometry R)
           (run_state (compare_geoms_loop (spec_T4Geometry R) gs (take m ps))) qs)"
    by blast
  moreover from assms(2)
  have "equivalenceMap (fst (run_state (compare_geoms_loop (spec_T4Geometry R) gs (take m ps)))) key
      = Some compo"
    by (simp add: t4Geom_after_def)
  ultimately show ?thesis
    by (simp add: t4Geom_after_def spec_loop_keeps_entries)
qed

lemma example_run1:
  "compare_geoms_loop example_methods (example_t4Geom, Statistics_new) (take 1 example_ptrac) =
     Inr (example_t4Geom\<lparr>equivalenceMap := [(1, Finite 1) \<mapsto> ''UO2'']\<rparr>,
          Statistics_new\<lparr>nbSuccess := 1\<rparr>)"
  by (simp add: example_defs run_defs)

text \<open>
  The example: no entry at the start, UO2 after the first point, and still UO2 after the
  two points that found H2O.
\<close>

theorem equivalenceMap_write_once_witness:
  "(1::nat) \<le> 4
   \<and> equivalenceMap (t4Geom_after example_methods (example_t4Geom, Statistics_new) example_ptrac 0)
        (1, Finite 1) = None
   \<and> equivalenceMap (t4Geom_after example_methods (example_t4Geom, Statistics_new) example_ptrac 1)
        (1, Finite 1) = Some ''UO2''
   \<and> equivalenceMap (t4Geom_after example_methods (example_t4Geom, Statistics_new) example_ptrac 4)
        (1, Finite 1) = Some ''UO2''"
proof -
  let ?R = "\<lambda>t4Filename::string. (example_volumes, example_compos, example_surfaceDistance)"
  have h1: "(1::nat) \<le> 4" by simp
  have m0: "equivalenceMap (t4Geom_after example_methods (example_t4Geom, Statistics_new) example_ptrac 0)
        (1, Finite 1) = None"
    by (simp add: t4Geom_after_def run_state_def example_t4Geom_def example_methods_def
        spec_T4Geometry_def)
  have h2: "equivalenceMap (t4Geom_after (spec_T4Geometry ?R) (example_t4Geom, Statistics_new) example_ptrac 1)
        (1, Finite 1) = Some ''UO2''"
    unfolding t4Geom_after_def example_methods_def [symmetric] example_run1
    by (simp add: run_state_def)
  from equivalenceMap_write_once [OF h1 h2] h2 m0
  show ?thesis by (simp add: example_methods_def [symmetric])
qed

section \<open>The tolerance after get\_opts\<close>

lemma get_opts_arg_delta_aux:
  "dless (Finite 0) (delta opts) \<Longrightarrow>
   (case get_opts_arg env opt rest (opts, out) of
      Inl e \<Rightarrow> True
    | Inr (returned, nv, opts', out') \<Rightarrow> dless (Finite 0) (delta opts'))"
  by (simp add: get_opts_arg_def Let_def dle_def deq_def split: list.split option.split)

lemma get_opts_arg_delta:
  assumes "get_opts_arg env opt rest (opts, out) = Inr (returned, nv, opts', out')"
    and "dless (Finite 0) (delta opts)"
  shows "dless (Finite 0) (delta opts')"
  using get_opts_arg_delta_aux [OF assms(2), of env opt rest out] assms(1) by simp

lemma get_opts_loop_delta:
  assumes "get_opts_loop env args s = Inr (returned, opts', out')"
    and "dless (Finite 0) (delta (fst s))"
  shows "dless (Finite 0) (delta opts')"
  using assms
proof (induction env args s arbitrary: returned opts' out' rule: get_opts_loop.induct)
  case (1 env s)
  then show ?case by auto
next
  case (2 env opt rest s)
  from "2.prems"(1) obtain ret nv opts1 out1 where
    a: "get_opts_arg env opt rest s = Inr (ret, nv, opts1, out1)"
    by (cases "get_opts_arg env opt rest s") auto
  from a have "get_opts_arg env opt rest (fst s, snd s) = Inr (ret, nv, opts1, out1)" by simp
  from get_opts_arg_delta [OF this "2.prems"(2)]
  have d: "dless (Finite 0) (delta opts1)" .
  show ?case
  proof (cases ret)
    case True
    with a "2.prems"(1) have "opts' = opts1" by simp
    with d show ?thesis by simp
  next
    case False
    with a "2.prems"(1)
    have l: "get_opts_loop env (drop nv rest) (opts1, out1) = Inr (returned, opts', out')"
      by simp
    from d have d': "dless (Finite 0) (delta (fst (opts1, out1)))" by simp
    from False a have a': "get_opts_arg env opt rest s = Inr (False, nv, opts1, out1)" by simp
    show ?thesis
      by (rule "2.IH" [OF a' refl refl _ l d']) simp
  qed
qed

lemma dless_zero_not_dle: "dless (Finite 0) d \<Longrightarrow> \<not> dle d (Finite 0)"
  by (cases d) (simp_all add: dle_def deq_def)

lemma get_opts_arg_resets_delta:
  assumes "opt = ''--delta'' \<or> opt = ''-d''" and "extract_double env v = Some x" and "x \<le> 0"
  shows "get_opts_arg env opt (v # rest) (opts, out)
          = Inr (False, 1, opts\<lparr>delta := Finite (1 / 10000000)\<rparr>,
                 out @ [''Warning: delta<=0. Setting delta=1.0e-7''])"
  using assms(1)
proof
  assume "opt = ''--delta''"
  with assms(2,3) show ?thesis
    by (simp add: get_opts_arg_def Let_def dle_def deq_def)
next
  assume "opt = ''-d''"
  with assms(2,3) show ?thesis
    by (simp add: get_opts_arg_def Let_def dle_def deq_def)
qed

text \<open>
  When nothing is extracted, \<open>delta\<close> keeps its value: a positive one passes the test
  \<open>delta <= 0\<close>, and nothing is printed.
\<close>

lemma get_opts_arg_keeps_delta:
  assumes "opt = ''--delta'' \<or> opt = ''-d''" and "extract_double env v = None"
    and "dless (Finite 0) (delta opts)"
  shows "get_opts_arg env opt (v # rest) (opts, out) = Inr (False, 1, opts, out)"
  using assms(1)
proof
  assume "opt = ''--delta''"
  with assms(2) dless_zero_not_dle [OF assms(3)] show ?thesis
    by (simp add: get_opts_arg_def Let_def)
next
  assume "opt = ''-d''"
  with assms(2) dless_zero_not_dle [OF assms(3)] show ?thesis
    by (simp add: get_opts_arg_def Let_def)
qed

lemma get_opts_Inr_cases:
  assumes "get_opts env argv s = Inr (opts', out')"
  shows "opts' = (fst s)\<lparr>opt_help := True\<rparr>
       \<or> (\<exists>returned out1. get_opts_loop env (drop 1 argv) s = Inr (returned, opts', out1))"
proof (cases "length argv \<le> 3")
  case True
  with assms show ?thesis by (simp add: get_opts_def)
next
  case False
  show ?thesis
  proof (cases "get_opts_loop env (drop 1 argv) s")
    case (Inl e)
    with False assms show ?thesis by (simp add: get_opts_def)
  next
    case (Inr r)
    obtain returned opts1 out1 where r: "r = (returned, opts1, out1)"
      by (cases r) auto
    show ?thesis
    proof (cases returned)
      case True
      with False assms Inr r show ?thesis by (auto simp add: get_opts_def)
    next
      case f: False
      with False assms Inr r show ?thesis
        by (cases "check_files env (argv ! 0) (filenames opts1) out1") (auto simp add: get_opts_def)
    qed
  qed
qed

lemma example_get_opts:
  "get_opts example_environment example_argv (OptionsCompare_new, [])
     = Inr (OptionsCompare_new\<lparr>filenames := [''jdd.t4'', ''jdd.inp'', ''ptrac'']\<rparr>,
            [''Warning: delta<=0. Setting delta=1.0e-7''])"
  by (simp add: get_opts_def get_opts_arg_def example_environment_def example_argv_def
      OptionsCompare_new_def Let_def dle_def deq_def)

lemma example_get_opts_blank:
  "get_opts example_environment example_argv_blank (OptionsCompare_new, [])
     = Inr (OptionsCompare_new\<lparr>delta := Finite (1 / 2), filenames := [''jdd.t4'']\<rparr>, [])"
  by (simp add: get_opts_def get_opts_arg_def example_environment_def example_argv_blank_def
      OptionsCompare_new_def Let_def dle_def deq_def)

text \<open>
  Claim C10. Whenever \<open>get_opts\<close> returns on options as the constructor has made them,
  \<open>delta\<close> is strictly positive, whatever the command line and whatever the extraction
  does with each value (store a number, or store nothing and leave \<open>delta\<close> as it was).
  The turn of the loop for \<open>--delta\<close> (or \<open>-d\<close>) with a value that reads as a number
  \<open>\<le> 0\<close> does not keep that number: it sets \<open>delta\<close> to \<open>1.0e-7\<close>, prints the warning and
  steps over the value. And with a value from which nothing is extracted, a positive
  \<open>delta\<close> stays as it is and nothing is printed.
\<close>

theorem delta_positive_after_get_opts:
  "(get_opts env argv (OptionsCompare_new, out) = Inr (opts', out') \<longrightarrow> dless (Finite 0) (delta opts'))
   \<and> ((opt = ''--delta'' \<or> opt = ''-d'') \<and> extract_double env v = Some x \<and> x \<le> 0 \<longrightarrow>
        get_opts_arg env opt (v # rest) (opts, out)
          = Inr (False, 1, opts\<lparr>delta := Finite (1 / 10000000)\<rparr>,
                 out @ [''Warning: delta<=0. Setting delta=1.0e-7'']))
   \<and> ((opt = ''--delta'' \<or> opt = ''-d'') \<and> extract_double env v = None
          \<and> dless (Finite 0) (delta opts) \<longrightarrow>
        get_opts_arg env opt (v # rest) (opts, out) = Inr (False, 1, opts, out))"
proof -
  have d0: "dless (Finite 0) (delta (fst (OptionsCompare_new, out)))"
    by (simp add: OptionsCompare_new_def)
  have a: "dless (Finite 0) (delta opts')"
    if r: "get_opts env argv (OptionsCompare_new, out) = Inr (opts', out')"
    using get_opts_Inr_cases [OF r]
  proof
    assume "opts' = (fst (OptionsCompare_new, out))\<lparr>opt_help := True\<rparr>"
    then show ?thesis by (simp add: OptionsCompare_new_def)
  next
    assume "\<exists>returned out1.
      get_opts_loop env (drop 1 argv) (OptionsCompare_new, out) = Inr (returned, opts', out1)"
    then obtain returned out1 where
      "get_opts_loop env (drop 1 argv) (OptionsCompare_new, out) = Inr (returned, opts', out1)"
      by blast
    from get_opts_loop_delta [OF this d0] show ?thesis .
  qed
  show ?thesis
  proof (intro conjI impI)
    assume "get_opts env argv (OptionsCompare_new, out) = Inr (opts', out')"
    then show "dless (Finite 0) (delta opts')" by (rule a)
  next
    assume h: "(opt = ''--delta'' \<or> opt = ''-d'') \<and> extract_double env v = Some x \<and> x \<le> 0"
    from h have h1: "opt = ''--delta'' \<or> opt = ''-d''" by (rule conjunct1)
    from h have h2: "extract_double env v = Some x" by (rule conjunct1 [OF conjunct2])
    from h have h3: "x \<le> 0" by (rule conjunct2 [OF conjunct2])
    show "get_opts_arg env opt (v # rest) (opts, out)
          = Inr (False, 1, opts\<lparr>delta := Finite (1 / 10000000)\<rparr>,
                 out @ [''Warning: delta<=0. Setting delta=1.0e-7''])"
      by (rule get_opts_arg_resets_delta [OF h1 h2 h3])
  next
    assume h: "(opt = ''--delta'' \<or> opt = ''-d'') \<and> extract_double env v = None
          \<and> dless (Finite 0) (delta opts)"
    from h have h1: "opt = ''--delta'' \<or> opt = ''-d''" by (rule conjunct1)
    from h have h2: "extract_double env v = None" by (rule conjunct1 [OF conjunct2])
    from h have h3: "dless (Finite 0) (delta opts)" by (rule conjunct2 [OF conjunct2])
    show "get_opts_arg env opt (v # rest) (opts, out) = Inr (False, 1, opts, out)"
      by (rule get_opts_arg_keeps_delta [OF h1 h2 h3])
  qed
qed

text \<open>
  The command line \<open>oracle --delta -1 jdd.t4 jdd.inp ptrac\<close>, where \<open>-1\<close> is replaced by
  the default with a warning; and the command line \<open>oracle --delta 0.5 --delta "" jdd.t4\<close>,
  where nothing is extracted from the empty value and \<open>delta\<close> stays \<open>0.5\<close> with no warning.
\<close>

theorem delta_positive_after_get_opts_witness:
  "get_opts example_environment example_argv (OptionsCompare_new, [])
     = Inr (OptionsCompare_new\<lparr>filenames := [''jdd.t4'', ''jdd.inp'', ''ptrac'']\<rparr>,
            [''Warning: delta<=0. Setting delta=1.0e-7''])
   \<and> dless (Finite 0) (delta (OptionsCompare_new\<lparr>filenames := [''jdd.t4'', ''jdd.inp'', ''ptrac'']\<rparr>))
   \<and> extract_double example_environment ''-1'' = Some (- 1)
   \<and> get_opts_arg example_environment ''--delta'' (''-1'' # [''jdd.t4'', ''jdd.inp'', ''ptrac''])
        (OptionsCompare_new, [])
      = Inr (False, 1, OptionsCompare_new\<lparr>delta := Finite (1 / 10000000)\<rparr>,
             [''Warning: delta<=0. Setting delta=1.0e-7''])
   \<and> get_opts example_environment example_argv_blank (OptionsCompare_new, [])
     = Inr (OptionsCompare_new\<lparr>delta := Finite (1 / 2), filenames := [''jdd.t4'']\<rparr>, [])
   \<and> extract_double example_environment [] = None
   \<and> get_opts_arg example_environment ''--delta'' ([] # [''jdd.t4''])
        (OptionsCompare_new\<lparr>delta := Finite (1 / 2)\<rparr>, [])
      = Inr (False, 1, OptionsCompare_new\<lparr>delta := Finite (1 / 2)\<rparr>, [])"
proof -
  have h: "extract_double example_environment ''-1'' = Some (- 1)"
    by (simp add: example_environment_def)
  have n: "extract_double example_environment [] = None"
    by (simp add: example_environment_def)
  have p: "dless (Finite 0) (delta (OptionsCompare_new\<lparr>delta := Finite (1 / 2)\<rparr>))"
    by simp
  have w1: "dless (Finite 0) (delta (OptionsCompare_new\<lparr>filenames := [''jdd.t4'', ''jdd.inp'', ''ptrac'']\<rparr>))
   \<and> get_opts_arg example_environment ''--delta'' (''-1'' # [''jdd.t4'', ''jdd.inp'', ''ptrac''])
        (OptionsCompare_new, [])
      = Inr (False, 1, OptionsCompare_new\<lparr>delta := Finite (1 / 10000000)\<rparr>,
             [''Warning: delta<=0. Setting delta=1.0e-7''])"
    using delta_positive_after_get_opts [where env = example_environment and argv = example_argv
      and out = "[]" and opts' = "OptionsCompare_new\<lparr>filenames := [''jdd.t4'', ''jdd.inp'', ''ptrac'']\<rparr>"
      and out' = "[''Warning: delta<=0. Setting delta=1.0e-7'']"
      and opt = "''--delta''" and v = "''-1''" and x = "- 1"
      and rest = "[''jdd.t4'', ''jdd.inp'', ''ptrac'']" and opts = OptionsCompare_new]
      example_get_opts h
    by simp
  have w2: "get_opts_arg example_environment ''--delta'' ([] # [''jdd.t4''])
        (OptionsCompare_new\<lparr>delta := Finite (1 / 2)\<rparr>, [])
      = Inr (False, 1, OptionsCompare_new\<lparr>delta := Finite (1 / 2)\<rparr>, [])"
    using delta_positive_after_get_opts [where env = example_environment and argv = example_argv_blank
      and out = "[]" and opts' = "OptionsCompare_new\<lparr>delta := Finite (1 / 2), filenames := [''jdd.t4'']\<rparr>"
      and out' = "[]" and opt = "''--delta''" and v = "[]"
      and rest = "[''jdd.t4'']" and opts = "OptionsCompare_new\<lparr>delta := Finite (1 / 2)\<rparr>"]
      n p
    by simp
  from w1 w2 h n example_get_opts example_get_opts_blank show ?thesis by simp
qed

end
